theory Spec2Isabelle
  imports Main "HOL-Library.AList" "HOL-Library.Sublist"
begin

section \<open>Python values and errors\<close>

text \<open>
  The configuration handled by \<^verbatim>\<open>satosa_config.py\<close> is an arbitrary Python value: a
  dict, or a string that is a file path, a JSON text or a YAML text. The model covers
  the values of JSON: \<^verbatim>\<open>None\<close>, booleans, integers, floats, strings, lists and dicts
  with string keys; any other object (bytes, a date that YAML builds, a dict with other
  keys) is outside it. A float is a mantissa and a binary exponent, an infinity with
  its sign, or not a number. A dict is an association list in which the first pair of
  a key counts: \<open>map_of\<close> is the lookup, \<open>k \<in> fst ` set d\<close> the test \<^verbatim>\<open>k in d\<close>, and
  \<open>AList.update\<close> the item assignment.
\<close>

datatype pyfloat = Finite int int | Infinity bool | NaN

datatype pyval =
    PyNone
  | PyBool bool
  | PyInt int
  | PyFloat pyfloat
  | PyStr string
  | PyList "pyval list"
  | PyDict "(string \<times> pyval) list"

text \<open>
  The exceptions. \<open>TypeError\<close> is what \<^verbatim>\<open>json.loads\<close> raises on an argument that is
  not a string, and what indexing a string or a list with a string raises.
  \<open>ValueError\<close> stands for that class and its subclasses (the decoding error of
  \<^verbatim>\<open>json.loads\<close> is one), \<open>OtherException\<close> for any other subclass of \<^verbatim>\<open>Exception\<close>
  that a library raises (\<^verbatim>\<open>RecursionError\<close> on deeply nested JSON, for instance), and
  \<open>NotAnException\<close> for an exception outside \<^verbatim>\<open>Exception\<close> (\<^verbatim>\<open>SystemExit\<close>, which an
  object built by \<^verbatim>\<open>yaml.load\<close> can raise).
\<close>

datatype error =
    AssertionError string
  | AttributeError string
  | TypeError
  | ValueError
  | OtherException string
  | NotAnException string

text \<open>What \<^verbatim>\<open>except Exception\<close> catches.\<close>

fun is_exception :: "error \<Rightarrow> bool" where
  "is_exception (NotAnException name) = False"
| "is_exception err = True"

text \<open>Python's truth value of an object, as \<^verbatim>\<open>if _internal_attributes:\<close> tests it.\<close>

fun truthy :: "pyval \<Rightarrow> bool" where
  "truthy PyNone = False"
| "truthy (PyBool b) = b"
| "truthy (PyInt n) = (n \<noteq> 0)"
| "truthy (PyFloat (Finite m x)) = (m \<noteq> 0)"
| "truthy (PyFloat f) = True"
| "truthy (PyStr s) = (s \<noteq> [])"
| "truthy (PyList xs) = (xs \<noteq> [])"
| "truthy (PyDict d) = (d \<noteq> [])"

definition is_not_none :: "pyval \<Rightarrow> bool" where
  "is_not_none v = (v \<noteq> PyNone)"

section \<open>The environment of the loaders\<close>

text \<open>
  The loaders read the file system and call the JSON and YAML libraries. These are not
  code of the repository, so they are parameters of the model:
  \<^item> \<open>files\<close> maps a path that \<^verbatim>\<open>os.path.isfile\<close> accepts and \<^verbatim>\<open>open\<close> can read to
    the file's text;
  \<^item> \<open>descriptors\<close> does the same for an integer, which \<^verbatim>\<open>os.path.isfile\<close> and
    \<^verbatim>\<open>open\<close> take as a file descriptor; reading a descriptor closes it, which is the
    one change of the environment (no two descriptors share an open file);
  \<^item> \<open>json_loads\<close> is \<^verbatim>\<open>json.loads\<close> on a string, with the exception it raises;
  \<^item> \<open>yaml_load\<close> is \<^verbatim>\<open>yaml.load\<close> on a string, with the exception it raises (an
    \<^verbatim>\<open>ImportError\<close> when the library is not installed).
  An exception that arrives from outside at an arbitrary point (an interrupt from the
  keyboard) is outside the model.
\<close>

record env =
  files :: "string \<Rightarrow> string option"
  descriptors :: "int \<Rightarrow> string option"
  json_loads :: "string \<Rightarrow> error + pyval"
  yaml_load :: "string \<Rightarrow> error + pyval"

section \<open>SATOSAConfig\<close>

definition mandatory_dict_keys :: "string list" where
  "mandatory_dict_keys =
     [''BASE'', ''PLUGIN_PATH'', ''BACKEND_MODULES'', ''FRONTEND_MODULES'',
      ''INTERNAL_ATTRIBUTES'', ''COOKIE_STATE_NAME'', ''STATE_ENCRYPTION_KEY'']"

text \<open>
  \<^verbatim>\<open>_readfile\<close>: the text of the file when the argument names a file, the argument
  itself otherwise. A string names a file by its path; an integer, and a boolean as the
  integer it is, by descriptor, and \<^verbatim>\<open>config_file.close()\<close> then closes the descriptor.
  On any other value \<^verbatim>\<open>os.path.isfile\<close> raises, and every exception is swallowed, as
  is a failure of \<^verbatim>\<open>open\<close> or \<^verbatim>\<open>read\<close>.
\<close>

definition read_descriptor :: "env \<Rightarrow> int \<Rightarrow> pyval \<Rightarrow> pyval \<times> env" where
  "read_descriptor e fd config =
     (case descriptors e fd of
        Some txt \<Rightarrow> (PyStr txt, e\<lparr>descriptors := (descriptors e)(fd := None)\<rparr>)
      | None \<Rightarrow> (config, e))"

fun readfile :: "env \<Rightarrow> pyval \<Rightarrow> pyval \<times> env" where
  "readfile e (PyStr p) = (case files e p of Some txt \<Rightarrow> (PyStr txt, e) | None \<Rightarrow> (PyStr p, e))"
| "readfile e (PyInt n) = read_descriptor e n (PyInt n)"
| "readfile e (PyBool b) = read_descriptor e (if b then 1 else 0) (PyBool b)"
| "readfile e v = (v, e)"

text \<open>\<^verbatim>\<open>_load_dict\<close> returns its argument when it is a dict and \<^verbatim>\<open>None\<close> otherwise.\<close>

fun load_dict :: "pyval \<Rightarrow> pyval" where
  "load_dict (PyDict d) = PyDict d"
| "load_dict v = PyNone"

text \<open>
  \<^verbatim>\<open>_load_json\<close> catches \<^verbatim>\<open>ValueError\<close> only, and then returns \<^verbatim>\<open>None\<close>. Every other
  exception of \<^verbatim>\<open>json.loads\<close> escapes, and so does its \<^verbatim>\<open>TypeError\<close> on a value that
  is not a string.
\<close>

definition load_json :: "env \<Rightarrow> pyval \<Rightarrow> (error + pyval) \<times> env" where
  "load_json e config =
     (case readfile e config of
        (PyStr s, e1) \<Rightarrow>
          (case json_loads e1 s of
             Inr v \<Rightarrow> (Inr v, e1)
           | Inl err \<Rightarrow> if err = ValueError then (Inr PyNone, e1) else (Inl err, e1))
      | (v, e1) \<Rightarrow> (Inl TypeError, e1))"

text \<open>
  \<^verbatim>\<open>_load_yaml\<close> catches \<^verbatim>\<open>ImportError\<close> and \<^verbatim>\<open>Exception\<close>, and then returns \<^verbatim>\<open>None\<close>;
  on a value that is not a string \<^verbatim>\<open>yaml.load\<close> raises an exception of that kind.
\<close>

definition load_yaml :: "env \<Rightarrow> pyval \<Rightarrow> (error + pyval) \<times> env" where
  "load_yaml e config =
     (case readfile e config of
        (PyStr s, e1) \<Rightarrow>
          (case yaml_load e1 s of
             Inr v \<Rightarrow> (Inr v, e1)
           | Inl err \<Rightarrow> if is_exception err then (Inr PyNone, e1) else (Inl err, e1))
      | (v, e1) \<Rightarrow> (Inr PyNone, e1))"

definition dict_parsers :: "(env \<Rightarrow> pyval \<Rightarrow> (error + pyval) \<times> env) list" where
  "dict_parsers = [\<lambda>e c. (Inr (load_dict c), e), load_json, load_yaml]"

text \<open>
  The loop \<^verbatim>\<open>for parser in dict_parsers: r = parser(config); if stop(r): break\<close>. The
  result is the last value assigned (\<open>cur\<close> when no parser is left); an exception of
  a parser ends the loop and the constructor.
\<close>

fun run_parsers ::
  "(pyval \<Rightarrow> bool) \<Rightarrow> (env \<Rightarrow> pyval \<Rightarrow> (error + pyval) \<times> env) list \<Rightarrow> pyval \<Rightarrow>
   env \<Rightarrow> pyval \<Rightarrow> (error + pyval) \<times> env" where
  "run_parsers stop [] cur e config = (Inr cur, e)"
| "run_parsers stop (p # ps) cur e config =
     (case p e config of
        (Inl err, e1) \<Rightarrow> (Inl err, e1)
      | (Inr r, e1) \<Rightarrow> if stop r then (Inr r, e1) else run_parsers stop ps r e1 config)"

text \<open>The loop of \<^verbatim>\<open>_verify_dict\<close> over the mandatory keys, first missing key first.\<close>

fun verify_keys :: "string list \<Rightarrow> (string \<times> pyval) list \<Rightarrow> error + unit" where
  "verify_keys [] d = Inr ()"
| "verify_keys (k # ks) d =
     (if k \<notin> fst ` set d
      then Inl (AssertionError (''Missing key '' @ [CHR 0x27] @ k @ [CHR 0x27] @ '' in config''))
      else verify_keys ks d)"

fun verify_dict :: "pyval \<Rightarrow> error + unit" where
  "verify_dict (PyDict d) = verify_keys mandatory_dict_keys d"
| "verify_dict v = Inl (AssertionError ''Missing configuration or unknown format'')"

text \<open>
  The two parser loops of \<^verbatim>\<open>__init__\<close>: the first stops at the first result that
  \<^verbatim>\<open>is not None\<close>, the second (for the value of \<^verbatim>\<open>INTERNAL_ATTRIBUTES\<close>) at the first
  result that is true.
\<close>

definition load_config :: "env \<Rightarrow> pyval \<Rightarrow> (error + pyval) \<times> env" where
  "load_config e config = run_parsers is_not_none dict_parsers PyNone e config"

definition load_internal_attributes :: "env \<Rightarrow> pyval \<Rightarrow> (error + pyval) \<times> env" where
  "load_internal_attributes e internal_attr_file =
     run_parsers truthy dict_parsers PyNone e internal_attr_file"

text \<open>An instance: its only instance attribute is \<^verbatim>\<open>_config\<close>.\<close>

record SATOSAConfig =
  config_attr :: pyval

text \<open>
  \<^verbatim>\<open>__init__\<close>: the instance, or the exception that leaves the constructor (the
  environment after the call is not returned). The second loop runs in the
  environment the first has left. After \<^verbatim>\<open>_verify_dict\<close> has passed, \<^verbatim>\<open>_config\<close> is a
  dict; the branch for any other value stands for the \<^verbatim>\<open>TypeError\<close> of \<^verbatim>\<open>in\<close> on it
  and is never reached.
\<close>

definition SATOSAConfig_init :: "env \<Rightarrow> pyval \<Rightarrow> error + SATOSAConfig" where
  "SATOSAConfig_init e config =
     (case load_config e config of
        (Inl err, e1) \<Rightarrow> Inl err
      | (Inr c, e1) \<Rightarrow>
          (case verify_dict c of
             Inl err \<Rightarrow> Inl err
           | Inr _ \<Rightarrow>
               (case c of
                  PyDict d \<Rightarrow>
                    (case map_of d ''INTERNAL_ATTRIBUTES'' of
                       Some internal_attr_file \<Rightarrow>
                         (case load_internal_attributes e1 internal_attr_file of
                            (Inl err, e2) \<Rightarrow> Inl err
                          | (Inr ia, e2) \<Rightarrow>
                              Inr \<lparr>config_attr =
                                     PyDict (AList.update ''INTERNAL_ATTRIBUTES'' ia d)\<rparr>)
                     | None \<Rightarrow>
                         Inr \<lparr>config_attr =
                                PyDict (AList.update ''INTERNAL_ATTRIBUTES'' PyNone d)\<rparr>)
                | _ \<Rightarrow> Inl TypeError)))"

text \<open>
  \<^verbatim>\<open>__getattr__\<close>, the hook Python calls when ordinary attribute lookup has failed.
  On a dict \<^verbatim>\<open>item in self._config\<close> is the key test. For completeness the other
  values are modelled too (no constructed instance holds one): on a string \<^verbatim>\<open>in\<close> is
  the substring test and on a list the membership test, after which the subscript
  with a string raises \<^verbatim>\<open>TypeError\<close>; on a number \<^verbatim>\<open>in\<close> itself raises it.
\<close>

definition no_attribute :: "string \<Rightarrow> error" where
  "no_attribute item =
     AttributeError ([CHR 0x27] @ ''module'' @ [CHR 0x27] @ '' object has no attribute ''
                     @ [CHR 0x27] @ item @ [CHR 0x27])"

definition SATOSAConfig_getattr :: "SATOSAConfig \<Rightarrow> string \<Rightarrow> error + pyval" where
  "SATOSAConfig_getattr self item =
     (case config_attr self of
        PyNone \<Rightarrow> Inl (no_attribute item)
      | PyDict d \<Rightarrow> (case map_of d item of Some v \<Rightarrow> Inr v | None \<Rightarrow> Inl (no_attribute item))
      | PyStr s \<Rightarrow> if sublist item s then Inl TypeError else Inl (no_attribute item)
      | PyList xs \<Rightarrow> if PyStr item \<in> set xs then Inl TypeError else Inl (no_attribute item)
      | _ \<Rightarrow> Inl TypeError)"

text \<open>
  The expression \<^verbatim>\<open>config.k\<close>. Python looks the name up in the instance's
  \<^verbatim>\<open>__dict__\<close> (which holds \<^verbatim>\<open>_config\<close> only, since \<^verbatim>\<open>__setattr__\<close> never writes
  to it) and in the namespaces of the class and of its base \<^verbatim>\<open>object\<close>, and calls
  \<^verbatim>\<open>__getattr__\<close> only when all fail. The namespace of the class holds what its body
  binds (\<^verbatim>\<open>mandatory_dict_keys\<close>, the methods, and \<^verbatim>\<open>__doc__\<close> for its docstring) and
  what the class statement adds (\<^verbatim>\<open>__module__\<close>, \<^verbatim>\<open>__dict__\<close>, \<^verbatim>\<open>__weakref__\<close>). The
  parameter \<open>builtin_names\<close> lists every further name that ordinary lookup resolves
  under the Python version at hand: the attributes of \<^verbatim>\<open>object\<close> (\<^verbatim>\<open>__class__\<close>,
  \<^verbatim>\<open>__init_subclass__\<close>, ...) and anything else that version puts into a class
  namespace. \<open>Member\<close> is the object that the class or the interpreter binds to a name.
\<close>

datatype attribute = Data pyval | Member string

definition class_methods :: "string list" where
  "class_methods =
     [''__init__'', ''_verify_dict'', ''__getattr__'', ''__setattr__'', ''__iter__'',
      ''_load_dict'', ''_load_json'', ''_load_yaml'', ''_readfile'']"

definition class_statement_names :: "string list" where
  "class_statement_names = [''__module__'', ''__doc__'', ''__dict__'', ''__weakref__'']"

definition ordinary_names :: "string list \<Rightarrow> string list" where
  "ordinary_names builtin_names =
     ''_config'' # ''mandatory_dict_keys'' # class_methods @ class_statement_names @ builtin_names"

definition attribute_access :: "string list \<Rightarrow> SATOSAConfig \<Rightarrow> string \<Rightarrow> error + attribute" where
  "attribute_access builtin_names self item =
     (if item = ''_config'' then Inr (Data (config_attr self))
      else if item = ''mandatory_dict_keys'' then Inr (Data (PyList (map PyStr mandatory_dict_keys)))
      else if item \<in> set class_methods \<union> set class_statement_names \<union> set builtin_names
        then Inr (Member item)
      else (case SATOSAConfig_getattr self item of
              Inl err \<Rightarrow> Inl err
            | Inr v \<Rightarrow> Inr (Data v)))"

text \<open>
  What \<^verbatim>\<open>_verify_dict\<close> accepts, as a predicate: a dict that holds every mandatory key.
\<close>

definition has_mandatory_keys :: "pyval \<Rightarrow> bool" where
  "has_mandatory_keys c =
     (case c of
        PyDict d \<Rightarrow> list_all (\<lambda>k. k \<in> fst ` set d) mandatory_dict_keys
      | _ \<Rightarrow> False)"




subsection \<open>Example inputs\<close>

text \<open>
  \<open>full_dict\<close> is a configuration dict with every mandatory key; \<open>empty_attrs_dict\<close> is
  the same with an empty dict for \<^verbatim>\<open>INTERNAL_ATTRIBUTES\<close>, \<open>path_attrs_dict\<close> the same
  with a string for it, and \<open>shadowed_dict\<close> the same with one more key, named like the
  class attribute. \<open>full_json\<close> is a JSON text of \<open>full_dict\<close>. In \<open>example_env\<close> there
  are no files, no open descriptors and no YAML library, and \<^verbatim>\<open>json.loads\<close> parses that
  one text and raises its decoding error on any other.
\<close>

definition full_dict :: "(string \<times> pyval) list" where
  "full_dict =
     [(''BASE'', PyStr ''https://proxy.example.com''),
      (''PLUGIN_PATH'', PyList [PyStr ''plugins'']),
      (''BACKEND_MODULES'', PyList [PyStr ''saml2_backend'']),
      (''FRONTEND_MODULES'', PyList [PyStr ''saml2_frontend'']),
      (''INTERNAL_ATTRIBUTES'', PyDict [(''attributes'', PyDict [])]),
      (''COOKIE_STATE_NAME'', PyStr ''SATOSA_STATE''),
      (''STATE_ENCRYPTION_KEY'', PyStr ''key'')]"



definition shadowed_dict :: "(string \<times> pyval) list" where
  "shadowed_dict = full_dict @ [(''mandatory_dict_keys'', PyStr ''mine'')]"

definition dq :: "string \<Rightarrow> string" where
  "dq s = [CHR 0x22] @ s @ [CHR 0x22]"

definition full_json :: string where
  "full_json =
     ''{'' @ dq ''BASE'' @ '': '' @ dq ''https://proxy.example.com'' @ '', '' @
     dq ''PLUGIN_PATH'' @ '': ['' @ dq ''plugins'' @ ''], '' @
     dq ''BACKEND_MODULES'' @ '': ['' @ dq ''saml2_backend'' @ ''], '' @
     dq ''FRONTEND_MODULES'' @ '': ['' @ dq ''saml2_frontend'' @ ''], '' @
     dq ''INTERNAL_ATTRIBUTES'' @ '': {'' @ dq ''attributes'' @ '': {}}, '' @
     dq ''COOKIE_STATE_NAME'' @ '': '' @ dq ''SATOSA_STATE'' @ '', '' @
     dq ''STATE_ENCRYPTION_KEY'' @ '': '' @ dq ''key'' @ ''}''"

definition example_env :: env where
  "example_env =
     \<lparr>files = (\<lambda>p. None),
      descriptors = (\<lambda>fd. None),
      json_loads = (\<lambda>s. if s = full_json then Inr (PyDict full_dict) else Inl ValueError),
      yaml_load = (\<lambda>s. Inl (OtherException ''ImportError''))\<rparr>"

section \<open>The attribute mapper of the SAML backend\<close>

text \<open>
  The backend (\<^verbatim>\<open>satosa/backends/saml2.py\<close>) and its attribute mapper are not among
  the sources; the test module \<^verbatim>\<open>tests/satosa/backends/test_saml2.py\<close> is.
\<close>

text \<open>
  Modelled from the spec: the Attribute Mapper, whose code is not among the sources
  (only the table \<^verbatim>\<open>INTERNAL_ATTRIBUTES\<close> and the expected result of the tests are).
  Section 4.4, step 5: for each canonical attribute of the configured table, the values
  are those of the first external name, in the configured priority order, that is
  present in the asserted set; a canonical attribute with no external name present is
  left out of the result. The table lists each canonical name with its external names
  in priority order, and an attribute set lists names with their values.
\<close>

type_synonym attributes = "(string \<times> string list) list"

fun first_present :: "string list \<Rightarrow> attributes \<Rightarrow> string list option" where
  "first_present [] asserted = None"
| "first_present (n # ns) asserted =
     (case map_of asserted n of
        Some vs \<Rightarrow> Some vs
      | None \<Rightarrow> first_present ns asserted)"

fun to_internal :: "(string \<times> string list) list \<Rightarrow> attributes \<Rightarrow> attributes" where
  "to_internal [] asserted = []"
| "to_internal ((canonical, names) # table) asserted =
     (case first_present names asserted of
        Some vs \<Rightarrow> (canonical, vs) # to_internal table asserted
      | None \<Rightarrow> to_internal table asserted)"

text \<open>
  The table of the tests (its \<^verbatim>\<open>saml\<close> profile), and an asserted attribute set that
  gives the result \<^verbatim>\<open>assert_authn_response\<close> expects.
\<close>

definition INTERNAL_ATTRIBUTES :: "(string \<times> string list) list" where
  "INTERNAL_ATTRIBUTES =
     [(''displayname'', [''displayName'']),
      (''givenname'', [''givenName'']),
      (''mail'', [''email'', ''emailAdress'', ''mail'']),
      (''edupersontargetedid'', [''eduPersonTargetedID'']),
      (''name'', [''cn'']),
      (''surname'', [''sn'', ''surname''])]"

definition asserted_testuser :: attributes where
  "asserted_testuser =
     [(''sn'', [''Testsson 1'']),
      (''givenName'', [''Test 1'']),
      (''eduPersonTargetedID'', [''one!for!all'']),
      (''email'', [''test@example.com'']),
      (''displayName'', [''Test Testsson''])]"

section \<open>Properties of SATOSAConfig\<close>

subsection \<open>\<^verbatim>\<open>_verify_dict\<close> and the parser loops\<close>

lemma verify_keys_ok: "verify_keys ks d = Inr () \<longleftrightarrow> list_all (\<lambda>k. k \<in> fst ` set d) ks"
  by (induction ks) auto

lemma verify_keys_err: "verify_keys ks d = Inl err \<Longrightarrow> \<exists>msg. err = AssertionError msg"
  by (induction ks) (auto split: if_splits)

lemma verify_dict_ok: "verify_dict c = Inr () \<longleftrightarrow> has_mandatory_keys c"
  by (cases c) (simp_all add: has_mandatory_keys_def verify_keys_ok)

lemma verify_dict_err: "verify_dict c = Inl err \<Longrightarrow> \<exists>msg. err = AssertionError msg"
  by (cases c) (auto dest: verify_keys_err)

lemma verify_dict_cases:
  "(has_mandatory_keys c \<and> verify_dict c = Inr ()) \<or>
   (\<not> has_mandatory_keys c \<and> (\<exists>msg. verify_dict c = Inl (AssertionError msg)))"
proof (cases "verify_dict c")
  case (Inl err)
  then show ?thesis using verify_dict_err [OF Inl] verify_dict_ok [of c] by auto
next
  case (Inr u)
  then show ?thesis using verify_dict_ok [of c] by simp
qed

lemma load_config_dict: "load_config e (PyDict d) = (Inr (PyDict d), e)"
  by (simp add: load_config_def dict_parsers_def is_not_none_def)



lemma load_internal_dict:
  "a \<noteq> [] \<Longrightarrow> load_internal_attributes e (PyDict a) = (Inr (PyDict a), e)"
  by (simp add: load_internal_attributes_def dict_parsers_def)




lemma mandatory_internal:
  "has_mandatory_keys (PyDict d) \<Longrightarrow> \<exists>v. map_of d ''INTERNAL_ATTRIBUTES'' = Some v"
proof -
  assume "has_mandatory_keys (PyDict d)"
  then have "''INTERNAL_ATTRIBUTES'' \<in> fst ` set d"
    by (simp add: has_mandatory_keys_def mandatory_dict_keys_def)
  then have "map_of d ''INTERNAL_ATTRIBUTES'' \<noteq> None"
    by (simp add: map_of_eq_None_iff)
  then show ?thesis by auto
qed

lemma init_Inr:
  "SATOSAConfig_init e config = Inr self \<longleftrightarrow>
     (\<exists>d e1 v ia e2.
        load_config e config = (Inr (PyDict d), e1) \<and> has_mandatory_keys (PyDict d) \<and>
        map_of d ''INTERNAL_ATTRIBUTES'' = Some v \<and>
        load_internal_attributes e1 v = (Inr ia, e2) \<and>
        self = \<lparr>config_attr = PyDict (AList.update ''INTERNAL_ATTRIBUTES'' ia d)\<rparr>)"
proof -
  obtain r e1 where l: "load_config e config = (r, e1)" by (cases "load_config e config")
  show ?thesis
  proof (cases r)
    case (Inl err)
    with l show ?thesis by (simp add: SATOSAConfig_init_def)
  next
    case (Inr c)
    show ?thesis
    proof (cases "has_mandatory_keys c")
      case False
      then obtain msg where "verify_dict c = Inl (AssertionError msg)"
        using verify_dict_cases [of c] by auto
      with l Inr False show ?thesis by (auto simp: SATOSAConfig_init_def)
    next
      case True
      then obtain d where c: "c = PyDict d"
        by (cases c) (simp_all add: has_mandatory_keys_def)
      from True have v: "verify_dict c = Inr ()" by (simp add: verify_dict_ok)
      from True c obtain x where x: "map_of d ''INTERNAL_ATTRIBUTES'' = Some x"
        using mandatory_internal by blast
      obtain r2 e2 where l2: "load_internal_attributes e1 x = (r2, e2)"
        by (cases "load_internal_attributes e1 x")
      show ?thesis
        using l Inr True c x v l2
        by (cases r2) (auto simp: SATOSAConfig_init_def simp del: verify_dict.simps)
    qed
  qed
qed

lemma init_InrI:
  "load_config e config = (Inr (PyDict d), e1) \<Longrightarrow> has_mandatory_keys (PyDict d) \<Longrightarrow>
   map_of d ''INTERNAL_ATTRIBUTES'' = Some v \<Longrightarrow> load_internal_attributes e1 v = (Inr ia, e2) \<Longrightarrow>
   SATOSAConfig_init e config =
     Inr \<lparr>config_attr = PyDict (AList.update ''INTERNAL_ATTRIBUTES'' ia d)\<rparr>"
  unfolding init_Inr by blast

subsection \<open>Construction fails fast\<close>


subsection \<open>The example inputs\<close>


lemma full_dict_mandatory: "has_mandatory_keys (PyDict full_dict)"
  by (simp add: has_mandatory_keys_def mandatory_dict_keys_def full_dict_def)

lemma full_dict_internal:
  "map_of full_dict ''INTERNAL_ATTRIBUTES'' = Some (PyDict [(''attributes'', PyDict [])])"
  by (simp add: full_dict_def)

lemma example_internal:
  "load_internal_attributes e (PyDict [(''attributes'', PyDict [])]) =
     (Inr (PyDict [(''attributes'', PyDict [])]), e)"
  by (simp add: load_internal_dict)

lemma full_dict_update:
  "AList.update ''INTERNAL_ATTRIBUTES'' (PyDict [(''attributes'', PyDict [])]) full_dict = full_dict"
  by (simp add: full_dict_def)












subsection \<open>Attribute access\<close>

lemma getattr_dict:
  "config_attr self = PyDict d \<Longrightarrow>
   SATOSAConfig_getattr self k = (case map_of d k of Some v \<Rightarrow> Inr v | None \<Rightarrow> Inl (no_attribute k))"
  by (simp add: SATOSAConfig_getattr_def)

lemma attribute_access_hook:
  "k \<notin> set (ordinary_names builtin_names) \<Longrightarrow> config_attr self = PyDict d \<Longrightarrow>
   attribute_access builtin_names self k =
     (case map_of d k of Some v \<Rightarrow> Inr (Data v) | None \<Rightarrow> Inl (no_attribute k))"
  by (auto simp: attribute_access_def ordinary_names_def getattr_dict split: option.splits)

lemma mandatory_not_ordinary:
  "m \<in> set mandatory_dict_keys \<Longrightarrow> m \<notin> set builtin_names \<Longrightarrow>
   m \<notin> set (ordinary_names builtin_names)"
  by (auto simp: mandatory_dict_keys_def ordinary_names_def class_methods_def
        class_statement_names_def)

lemma has_mandatory_update:
  "has_mandatory_keys (PyDict d) \<Longrightarrow> has_mandatory_keys (PyDict (AList.update k v d))"
  by (simp add: has_mandatory_keys_def dom_update list_all_iff)

lemma has_mandatory_lookup:
  "has_mandatory_keys (PyDict d) \<Longrightarrow> m \<in> set mandatory_dict_keys \<Longrightarrow> \<exists>v. map_of d m = Some v"
proof -
  assume "has_mandatory_keys (PyDict d)" and "m \<in> set mandatory_dict_keys"
  then have "m \<in> fst ` set d"
    by (simp add: has_mandatory_keys_def list_all_iff)
  then have "map_of d m \<noteq> None"
    by (simp add: map_of_eq_None_iff)
  then show ?thesis by auto
qed

text \<open>
  Claim C10, as amended. On an instance that was constructed successfully, \<^verbatim>\<open>_config\<close>
  is a dict \<open>d\<close>: the dict \<open>d0\<close> that was loaded and verified, with the value \<open>v\<close> of
  \<^verbatim>\<open>INTERNAL_ATTRIBUTES\<close> replaced by \<open>ia\<close>, what the second parser loop loaded from \<open>v\<close>;
  \<open>d\<close> holds every mandatory key. For every name \<open>k\<close> that ordinary attribute lookup
  does not resolve (any name but \<^verbatim>\<open>_config\<close>, the names in the namespace of the class
  and the names in \<open>builtin_names\<close>), \<^verbatim>\<open>config.k\<close> is the value bound to \<open>k\<close> in \<open>d\<close> when
  \<open>k\<close> is a key of \<open>d\<close>, and raises \<^verbatim>\<open>AttributeError\<close> when it is not. In particular
  every mandatory key outside \<open>builtin_names\<close> is a key of \<open>d\<close>, and \<^verbatim>\<open>config.k\<close> is its
  value; for every key but \<^verbatim>\<open>INTERNAL_ATTRIBUTES\<close> that is the value in \<open>d0\<close>.
\<close>

theorem attribute_access_after_init:
  assumes "SATOSAConfig_init e config = Inr self"
  shows "\<exists>d d0 e1 v ia e2.
           load_config e config = (Inr (PyDict d0), e1) \<and> has_mandatory_keys (PyDict d0) \<and>
           map_of d0 ''INTERNAL_ATTRIBUTES'' = Some v \<and>
           load_internal_attributes e1 v = (Inr ia, e2) \<and>
           d = AList.update ''INTERNAL_ATTRIBUTES'' ia d0 \<and>
           config_attr self = PyDict d \<and> has_mandatory_keys (PyDict d) \<and>
           map_of d = (map_of d0)(''INTERNAL_ATTRIBUTES'' \<mapsto> ia) \<and>
           (k \<notin> set (ordinary_names builtin_names) \<longrightarrow>
              attribute_access builtin_names self k =
                (case map_of d k of Some x \<Rightarrow> Inr (Data x) | None \<Rightarrow> Inl (no_attribute k))) \<and>
           (\<forall>m \<in> set mandatory_dict_keys. m \<notin> set builtin_names \<longrightarrow>
              (\<exists>x. map_of d m = Some x \<and> attribute_access builtin_names self m = Inr (Data x)))"
proof -
  from assms obtain d0 e1 v ia e2 where
    l: "load_config e config = (Inr (PyDict d0), e1)" and m: "has_mandatory_keys (PyDict d0)" and
    v: "map_of d0 ''INTERNAL_ATTRIBUTES'' = Some v" and
    i: "load_internal_attributes e1 v = (Inr ia, e2)" and
    s: "self = \<lparr>config_attr = PyDict (AList.update ''INTERNAL_ATTRIBUTES'' ia d0)\<rparr>"
    unfolding init_Inr by blast
  let ?d = "AList.update ''INTERNAL_ATTRIBUTES'' ia d0"
  have c: "config_attr self = PyDict ?d" using s by simp
  have hm: "has_mandatory_keys (PyDict ?d)" using m by (rule has_mandatory_update)
  have u: "map_of ?d = (map_of d0)(''INTERNAL_ATTRIBUTES'' \<mapsto> ia)" by (rule update_conv')
  have mand: "\<exists>x. map_of ?d n = Some x \<and> attribute_access builtin_names self n = Inr (Data x)"
    if "n \<in> set mandatory_dict_keys" "n \<notin> set builtin_names" for n
  proof -
    from hm that(1) obtain x where x: "map_of ?d n = Some x"
      using has_mandatory_lookup by blast
    from that have "n \<notin> set (ordinary_names builtin_names)" by (rule mandatory_not_ordinary)
    from attribute_access_hook [OF this c] x show ?thesis by simp
  qed
  have hook: "k \<notin> set (ordinary_names builtin_names) \<longrightarrow>
      attribute_access builtin_names self k =
        (case map_of ?d k of Some x \<Rightarrow> Inr (Data x) | None \<Rightarrow> Inl (no_attribute k))"
    using attribute_access_hook [OF _ c] by blast
  from l m v i c hm u hook mand show ?thesis by blast
qed

lemma init_full_dict:
  "SATOSAConfig_init example_env (PyDict full_dict) = Inr \<lparr>config_attr = PyDict full_dict\<rparr>"
  using init_InrI [OF load_config_dict full_dict_mandatory full_dict_internal example_internal]
  by (simp add: full_dict_update)

lemma init_shadowed_dict:
  "SATOSAConfig_init example_env (PyDict shadowed_dict) = Inr \<lparr>config_attr = PyDict shadowed_dict\<rparr>"
proof -
  have m: "has_mandatory_keys (PyDict shadowed_dict)"
    by (simp add: has_mandatory_keys_def mandatory_dict_keys_def shadowed_dict_def full_dict_def)
  have i: "map_of shadowed_dict ''INTERNAL_ATTRIBUTES'' =
      Some (PyDict [(''attributes'', PyDict [])])"
    by (simp add: shadowed_dict_def full_dict_def)
  have u: "AList.update ''INTERNAL_ATTRIBUTES'' (PyDict [(''attributes'', PyDict [])])
      shadowed_dict = shadowed_dict"
    by (simp add: shadowed_dict_def full_dict_def)
  from init_InrI [OF load_config_dict m i example_internal] u show ?thesis by simp
qed

text \<open>
  Claim C10 as stated fails on the names that ordinary lookup resolves: \<^verbatim>\<open>_config\<close> is
  not a key of \<open>full_dict\<close>, yet \<^verbatim>\<open>config._config\<close> returns the dict and raises nothing;
  and \<^verbatim>\<open>mandatory_dict_keys\<close> is a key of \<open>shadowed_dict\<close>, yet
  \<^verbatim>\<open>config.mandatory_dict_keys\<close> is the class attribute, not the value bound to the key.
\<close>

theorem attribute_access_counterexample:
  "SATOSAConfig_init example_env (PyDict full_dict) = Inr \<lparr>config_attr = PyDict full_dict\<rparr> \<and>
   map_of full_dict ''_config'' = None \<and>
   attribute_access [] \<lparr>config_attr = PyDict full_dict\<rparr> ''_config'' = Inr (Data (PyDict full_dict)) \<and>
   SATOSAConfig_init example_env (PyDict shadowed_dict) = Inr \<lparr>config_attr = PyDict shadowed_dict\<rparr> \<and>
   map_of shadowed_dict ''mandatory_dict_keys'' = Some (PyStr ''mine'') \<and>
   attribute_access [] \<lparr>config_attr = PyDict shadowed_dict\<rparr> ''mandatory_dict_keys'' =
     Inr (Data (PyList (map PyStr mandatory_dict_keys)))"
  by (simp add: init_full_dict init_shadowed_dict attribute_access_def)
    (simp add: full_dict_def shadowed_dict_def)

text \<open>
  The theorem of C10 on the instance built from \<open>full_dict\<close>, with three attributes of
  \<^verbatim>\<open>object\<close> for \<open>builtin_names\<close>: a key is read, an unknown name raises.
\<close>

theorem attribute_access_after_init_witness:
  "attribute_access [''__class__'', ''__repr__'', ''__hash__''] \<lparr>config_attr = PyDict full_dict\<rparr> ''BASE'' =
     Inr (Data (PyStr ''https://proxy.example.com'')) \<and>
   attribute_access [''__class__'', ''__repr__'', ''__hash__''] \<lparr>config_attr = PyDict full_dict\<rparr> ''nothing'' =
     Inl (no_attribute ''nothing'')"
proof -
  let ?names = "[''__class__'', ''__repr__'', ''__hash__'']"
  let ?self = "\<lparr>config_attr = PyDict full_dict\<rparr>"
  have n1: "''BASE'' \<notin> set (ordinary_names ?names)"
    and n2: "''nothing'' \<notin> set (ordinary_names ?names)"
    by (simp_all add: ordinary_names_def class_methods_def class_statement_names_def)
  from attribute_access_after_init [OF init_full_dict, of "''BASE''" ?names]
  obtain d where d: "config_attr ?self = PyDict d" and
    h: "''BASE'' \<notin> set (ordinary_names ?names) \<longrightarrow>
        attribute_access ?names ?self ''BASE'' =
          (case map_of d ''BASE'' of Some x \<Rightarrow> Inr (Data x) | None \<Rightarrow> Inl (no_attribute ''BASE''))"
    by (elim exE conjE)
  from d have "d = full_dict" by simp
  with h n1
  have 1: "attribute_access ?names ?self ''BASE'' = Inr (Data (PyStr ''https://proxy.example.com''))"
    by (simp add: full_dict_def)
  from attribute_access_after_init [OF init_full_dict, of "''nothing''" ?names]
  obtain d' where d': "config_attr ?self = PyDict d'" and
    h': "''nothing'' \<notin> set (ordinary_names ?names) \<longrightarrow>
        attribute_access ?names ?self ''nothing'' =
          (case map_of d' ''nothing'' of Some x \<Rightarrow> Inr (Data x)
           | None \<Rightarrow> Inl (no_attribute ''nothing''))"
    by (elim exE conjE)
  from d' have "d' = full_dict" by simp
  with h' n2
  have 2: "attribute_access ?names ?self ''nothing'' = Inl (no_attribute ''nothing'')"
    by (simp add: full_dict_def)
  from 1 2 show ?thesis by simp
qed

section \<open>Properties of the attribute mapper\<close>

lemma first_present_None:
  "first_present names asserted = None \<longleftrightarrow> (\<forall>n \<in> set names. map_of asserted n = None)"
  by (induction names) (auto split: option.splits)

lemma first_present_Some:
  "first_present names asserted = Some vs \<longleftrightarrow>
     (\<exists>before n after. names = before @ n # after \<and>
        (\<forall>m \<in> set before. map_of asserted m = None) \<and> map_of asserted n = Some vs)"
proof (induction names)
  case Nil
  then show ?case by simp
next
  case (Cons a names)
  show ?case
  proof (cases "map_of asserted a")
    case None
    have "(\<exists>before n after. a # names = before @ n # after \<and>
             (\<forall>m \<in> set before. map_of asserted m = None) \<and> map_of asserted n = Some vs)
      \<longleftrightarrow> (\<exists>before n after. names = before @ n # after \<and>
             (\<forall>m \<in> set before. map_of asserted m = None) \<and> map_of asserted n = Some vs)"
      (is "?L \<longleftrightarrow> ?R")
    proof
      assume ?L
      then obtain before n after where h: "a # names = before @ n # after"
        "\<forall>m \<in> set before. map_of asserted m = None" "map_of asserted n = Some vs"
        by blast
      from h None obtain rest where "before = a # rest" by (cases before) auto
      with h show ?R by auto
    next
      assume ?R
      then obtain before n after where h: "names = before @ n # after"
        "\<forall>m \<in> set before. map_of asserted m = None" "map_of asserted n = Some vs"
        by blast
      then have "a # names = (a # before) @ n # after \<and>
          (\<forall>m \<in> set (a # before). map_of asserted m = None) \<and> map_of asserted n = Some vs"
        using None by simp
      then show ?L by blast
    qed
    with None Cons show ?thesis by simp
  next
    case (Some ws)
    have "(\<exists>before n after. a # names = before @ n # after \<and>
             (\<forall>m \<in> set before. map_of asserted m = None) \<and> map_of asserted n = Some vs)
      \<longleftrightarrow> ws = vs" (is "?L \<longleftrightarrow> _")
    proof
      assume ?L
      then obtain before n after where h: "a # names = before @ n # after"
        "\<forall>m \<in> set before. map_of asserted m = None" "map_of asserted n = Some vs"
        by blast
      from h Some have "before = []" by (cases before) auto
      with h Some show "ws = vs" by simp
    next
      assume "ws = vs"
      with Some have "a # names = [] @ a # names \<and>
          (\<forall>m \<in> set []. map_of asserted m = None) \<and> map_of asserted a = Some vs"
        by simp
      then show ?L by blast
    qed
    with Some show ?thesis by auto
  qed
qed

lemma to_internal_lookup:
  "distinct (map fst table) \<Longrightarrow>
   map_of (to_internal table asserted) c =
     (case map_of table c of None \<Rightarrow> None | Some names \<Rightarrow> first_present names asserted)"
proof (induction table)
  case Nil
  then show ?case by simp
next
  case (Cons p table)
  obtain c' names where p: "p = (c', names)" by (cases p)
  from Cons.prems p have d: "distinct (map fst table)" and nin: "c' \<notin> fst ` set table"
    by auto
  from nin have "map_of table c' = None" by (simp add: map_of_eq_None_iff)
  with Cons.IH [OF d] p show ?case
    by (auto split: option.splits)
qed

text \<open>
  Claim C5, on the mapper modelled from the spec. For a table whose canonical names are
  distinct and a canonical attribute \<open>c\<close> configured with the external names \<open>names\<close>:
  when \<open>n\<close> is the first of \<open>names\<close> that is present in the asserted set, the result
  holds \<open>c\<close> with the values asserted for \<open>n\<close>; when none of \<open>names\<close> is present, \<open>c\<close>
  is absent from the result.
\<close>

theorem to_internal_first_match:
  assumes "distinct (map fst table)" and "map_of table c = Some names"
  shows "(\<forall>before n after vs.
            names = before @ n # after \<and> (\<forall>m \<in> set before. map_of asserted m = None) \<and>
            map_of asserted n = Some vs
            \<longrightarrow> map_of (to_internal table asserted) c = Some vs) \<and>
         ((\<forall>n \<in> set names. map_of asserted n = None)
            \<longrightarrow> map_of (to_internal table asserted) c = None)"
proof -
  have l: "map_of (to_internal table asserted) c = first_present names asserted"
    using assms by (simp add: to_internal_lookup)
  show ?thesis
    unfolding l using first_present_Some [of names asserted] first_present_None [of names asserted]
    by blast
qed

text \<open>
  The theorem of C5 on the table of the tests: \<open>mail\<close> takes the values of \<open>email\<close>, the
  first of its three external names, and \<open>name\<close>, whose only external name \<open>cn\<close> is not
  asserted, is absent. The whole result is the one the tests expect.
\<close>

theorem to_internal_first_match_witness:
  "map_of (to_internal INTERNAL_ATTRIBUTES asserted_testuser) ''mail'' = Some [''test@example.com''] \<and>
   map_of (to_internal INTERNAL_ATTRIBUTES asserted_testuser) ''name'' = None \<and>
   to_internal INTERNAL_ATTRIBUTES asserted_testuser =
     [(''displayname'', [''Test Testsson'']), (''givenname'', [''Test 1'']),
      (''mail'', [''test@example.com'']), (''edupersontargetedid'', [''one!for!all'']),
      (''surname'', [''Testsson 1''])]"
proof -
  have d: "distinct (map fst INTERNAL_ATTRIBUTES)"
    by (simp add: INTERNAL_ATTRIBUTES_def)
  have m: "map_of INTERNAL_ATTRIBUTES ''mail'' = Some [''email'', ''emailAdress'', ''mail'']"
    and n: "map_of INTERNAL_ATTRIBUTES ''name'' = Some [''cn'']"
    by (simp_all add: INTERNAL_ATTRIBUTES_def)
  have "[''email'', ''emailAdress'', ''mail''] = [] @ ''email'' # [''emailAdress'', ''mail''] \<and>
        (\<forall>m \<in> set []. map_of asserted_testuser m = None) \<and>
        map_of asserted_testuser ''email'' = Some [''test@example.com'']"
    by (simp add: asserted_testuser_def)
  with to_internal_first_match [OF d m, of asserted_testuser]
  have 1: "map_of (to_internal INTERNAL_ATTRIBUTES asserted_testuser) ''mail'' = Some [''test@example.com'']"
    by blast
  have "\<forall>n \<in> set [''cn'']. map_of asserted_testuser n = None"
    by (simp add: asserted_testuser_def)
  with to_internal_first_match [OF d n, of asserted_testuser]
  have 2: "map_of (to_internal INTERNAL_ATTRIBUTES asserted_testuser) ''name'' = None"
    by blast
  have 3: "to_internal INTERNAL_ATTRIBUTES asserted_testuser =
     [(''displayname'', [''Test Testsson'']), (''givenname'', [''Test 1'']),
      (''mail'', [''test@example.com'']), (''edupersontargetedid'', [''one!for!all'']),
      (''surname'', [''Testsson 1''])]"
    by (simp add: INTERNAL_ATTRIBUTES_def asserted_testuser_def)
  from 1 2 3 show ?thesis by simp
qed

end
